theory Spec2Isabelle
  imports Complex_Main
begin

section \<open>Module constants of \<^verbatim>\<open>scene_generator.py\<close>\<close>

definition GENERATIONS_PATH :: string where
  "GENERATIONS_PATH = ''generated''"

definition MAX_ITERATIONS :: nat where
  "MAX_ITERATIONS = 5"

definition SYSTEM_SCENE_PROMPT :: string where
  "SYSTEM_SCENE_PROMPT =
     ''\<newline>You are an expert teacher of simple and complex topics, similar to 3 Blue 1 Brown. Given a transcription for a video scene, you are to generate Manim code that will create an animation for the scene. The code should be able to run without errors.\<newline>\<newline>Try to be creative in your visualization of the topic. The scene should be engaging and informative. ONLY generate and return the manim code. Nothing else. Not even markdown or the programming language name\<newline>\<newline>Two elements should not be in the same location at the same time. Ensure that every asset you use is defined in the file, and that the file can be run without errors.\<newline>\<newline>The classname of the root animation should always be VideoScene.\<newline>''"

definition VOICE_ID :: string where
  "VOICE_ID = ''7d21119e-bb5d-4416-8164-9170ec4952c2''"

definition VIDEO_INTERNAL_PATH :: string where
  "VIDEO_INTERNAL_PATH = ''videos/video/480p15/video.mp4''"


section \<open>Python values used by the module\<close>

text \<open>Exceptions are values; the payload is what \<^verbatim>\<open>str(e)\<close> prints.\<close>

datatype exn =
    KeyError string
  | AttributeError string
  | TypeError string
  | ValueError string
  | OSError string
  | ServiceError string

fun exn_str :: "exn \<Rightarrow> string" where
  "exn_str (KeyError s) = s"
| "exn_str (AttributeError s) = s"
| "exn_str (TypeError s) = s"
| "exn_str (ValueError s) = s"
| "exn_str (OSError s) = s"
| "exn_str (ServiceError s) = s"

text \<open>
  \<^verbatim>\<open>str.strip(chars)\<close>: the argument is a set of characters, and every leading and
  trailing character of the string that belongs to it is removed.
\<close>

definition py_strip :: "string \<Rightarrow> string \<Rightarrow> string" where
  "py_strip chars s =
     rev (dropWhile (\<lambda>c. c \<in> set chars) (rev (dropWhile (\<lambda>c. c \<in> set chars) s)))"

text \<open>\<^verbatim>\<open>str.strip()\<close> with no argument removes white space (the ASCII part of it here).\<close>

definition py_whitespace :: string where
  "py_whitespace =
     [CHR 0x09, CHR 0x0A, CHR 0x0B, CHR 0x0C, CHR 0x0D, CHR 0x1C, CHR 0x1D, CHR 0x1E, CHR 0x1F, CHR 0x20]"

text \<open>Decimal text of an integer, as an f-string prints a return code.\<close>

fun digit_char :: "nat \<Rightarrow> char" where
  "digit_char n = char_of (48 + n)"

fun str_nat :: "nat \<Rightarrow> string" where
  "str_nat n = (if n < 10 then [digit_char n] else str_nat (n div 10) @ [digit_char (n mod 10)])"

declare str_nat.simps [simp del]

definition str_int :: "int \<Rightarrow> string" where
  "str_int i = (if i < 0 then CHR ''-'' # str_nat (nat (- i)) else str_nat (nat i))"

text \<open>
  A chat message is the dictionary \<^verbatim>\<open>{"role": ..., "content": ...}\<close>.
\<close>

record message =
  role :: string
  content :: string

text \<open>
  A dictionary keeps its keys in insertion order; storing under a key that is already
  there replaces the value and leaves the key where it is.
\<close>

fun dict_set :: "('k \<times> 'v) list \<Rightarrow> 'k \<Rightarrow> 'v \<Rightarrow> ('k \<times> 'v) list" where
  "dict_set [] k v = [(k, v)]"
| "dict_set ((k', v') # d) k v =
     (if k' = k then (k, v) # d else (k', v') # dict_set d k v)"

definition dict_keys :: "('k \<times> 'v) list \<Rightarrow> 'k list" where
  "dict_keys d = map fst d"

definition dict_get :: "(string \<times> 'v) list \<Rightarrow> string \<Rightarrow> exn + 'v" where
  "dict_get d k = (case map_of d k of None \<Rightarrow> Inl (KeyError k) | Some v \<Rightarrow> Inr v)"


section \<open>The world outside the process\<close>

subsection \<open>Clips of the media library\<close>

text \<open>
  The clip objects are kept as the expressions that build them. Their \<^verbatim>\<open>start\<close>,
  \<^verbatim>\<open>duration\<close> and \<^verbatim>\<open>end\<close> attributes are computed the way the media
  library sets them: a file clip starts at 0 and lasts as long as the file; \<^verbatim>\<open>set_start\<close>
  moves the start and, with it, the end; a composite lasts until the latest end of its
  parts; \<^verbatim>\<open>subclip(a, b)\<close> lasts \<^verbatim>\<open>b - a\<close>; an image clip has no duration
  until \<^verbatim>\<open>set_duration\<close> gives it one; a concatenation lasts the sum of its parts.
  Durations are real numbers (seconds): the sums and differences below are exact, and the
  rounding of the library's floating-point arithmetic is not modelled. The library
  refuses to build a composite of no clips; the module only builds composites of two, and
  the functions below give the empty one the duration 0.
\<close>

datatype frame = Frame string real

datatype aclip =
    AudioFileClip string real
  | AudioClip_silence real
  | A_set_start aclip real
  | CompositeAudioClip "aclip list"
  | A_subclip aclip real real

datatype vclip =
    VideoFileClip string real
  | ImageClip frame
  | V_set_duration vclip real
  | V_set_start vclip real
  | CompositeVideoClip "vclip list"
  | V_subclip vclip real real
  | V_set_audio vclip aclip
  | Concatenate "vclip list"

record 'd timing =
  t_start :: real
  t_duration :: 'd
  t_end :: 'd

text \<open>Python's \<^verbatim>\<open>max\<close> of a list; the empty list raises.\<close>

fun py_max :: "real list \<Rightarrow> real option" where
  "py_max [] = None"
| "py_max (x # xs) = Some (fold max xs x)"

fun a_timing :: "aclip \<Rightarrow> real timing" where
  "a_timing (AudioFileClip p d) = \<lparr>t_start = 0, t_duration = d, t_end = d\<rparr>"
| "a_timing (AudioClip_silence d) = \<lparr>t_start = 0, t_duration = d, t_end = d\<rparr>"
| "a_timing (A_set_start c t) =
     \<lparr>t_start = t, t_duration = t_duration (a_timing c), t_end = t + t_duration (a_timing c)\<rparr>"
| "a_timing (CompositeAudioClip cs) =
     (case py_max (map (\<lambda>c. t_end (a_timing c)) cs) of
        None \<Rightarrow> \<lparr>t_start = 0, t_duration = 0, t_end = 0\<rparr>
      | Some m \<Rightarrow> \<lparr>t_start = 0, t_duration = m, t_end = m\<rparr>)"
| "a_timing (A_subclip c a b) =
     \<lparr>t_start = t_start (a_timing c), t_duration = b - a, t_end = t_start (a_timing c) + (b - a)\<rparr>"

definition a_duration :: "aclip \<Rightarrow> real" where
  "a_duration c = t_duration (a_timing c)"

text \<open>Sum of the durations of a list of clips, when each has one.\<close>

fun sum_durations :: "real option list \<Rightarrow> real option" where
  "sum_durations [] = Some 0"
| "sum_durations (None # ds) = None"
| "sum_durations (Some d # ds) = (case sum_durations ds of None \<Rightarrow> None | Some s \<Rightarrow> Some (d + s))"

fun all_some :: "'a option list \<Rightarrow> 'a list option" where
  "all_some [] = Some []"
| "all_some (None # xs) = None"
| "all_some (Some x # xs) = (case all_some xs of None \<Rightarrow> None | Some ys \<Rightarrow> Some (x # ys))"

fun v_timing :: "vclip \<Rightarrow> real option timing" where
  "v_timing (VideoFileClip p d) = \<lparr>t_start = 0, t_duration = Some d, t_end = Some d\<rparr>"
| "v_timing (ImageClip f) = \<lparr>t_start = 0, t_duration = None, t_end = None\<rparr>"
| "v_timing (V_set_duration c t) =
     \<lparr>t_start = t_start (v_timing c), t_duration = Some t, t_end = Some (t_start (v_timing c) + t)\<rparr>"
| "v_timing (V_set_start c t) =
     (case t_duration (v_timing c) of
        Some d \<Rightarrow> \<lparr>t_start = t, t_duration = Some d, t_end = Some (t + d)\<rparr>
      | None \<Rightarrow>
          (case t_end (v_timing c) of
             Some e \<Rightarrow> \<lparr>t_start = t, t_duration = Some (e - t), t_end = Some e\<rparr>
           | None \<Rightarrow> \<lparr>t_start = t, t_duration = None, t_end = None\<rparr>))"
| "v_timing (CompositeVideoClip cs) =
     (case all_some (map (\<lambda>c. t_end (v_timing c)) cs) of
        None \<Rightarrow> \<lparr>t_start = 0, t_duration = None, t_end = None\<rparr>
      | Some ends \<Rightarrow> \<lparr>t_start = 0, t_duration = py_max ends, t_end = py_max ends\<rparr>)"
| "v_timing (V_subclip c a b) =
     \<lparr>t_start = t_start (v_timing c), t_duration = Some (b - a),
      t_end = Some (t_start (v_timing c) + (b - a))\<rparr>"
| "v_timing (V_set_audio c a) = v_timing c"
| "v_timing (Concatenate cs) =
     \<lparr>t_start = 0, t_duration = sum_durations (map (\<lambda>c. t_duration (v_timing c)) cs),
      t_end = sum_durations (map (\<lambda>c. t_duration (v_timing c)) cs)\<rparr>"

definition v_duration :: "vclip \<Rightarrow> real option" where
  "v_duration c = t_duration (v_timing c)"

subsection \<open>File system and log\<close>

text \<open>
  What a file holds: text, bytes, the clip the rendering engine left behind (its duration),
  or a clip written by \<^verbatim>\<open>write_videofile\<close>.
\<close>

datatype fdata = Text string | Bytes string | Rendered real | Written vclip

datatype level = WARNING | ERROR

text \<open>
  The state the module works on: the directories and files that exist and the
  warning and error lines handed to the logger (info lines are left out: no decision of
  the module depends on them).
\<close>

record world =
  dirs :: "string set"
  files :: "string \<rightharpoonup> fdata"
  logged :: "(level \<times> string) list"

definition logger :: "level \<Rightarrow> string \<Rightarrow> world \<Rightarrow> world" where
  "logger l m w = w\<lparr>logged := logged w @ [(l, m)]\<rparr>"

definition path_exists :: "world \<Rightarrow> string \<Rightarrow> bool" where
  "path_exists w p \<longleftrightarrow> p \<in> dirs w \<or> files w p \<noteq> None"

text \<open>The directories above a path: the prefixes that end before a separator.\<close>

definition ancestors :: "string \<Rightarrow> string list" where
  "ancestors p = map (\<lambda>i. take i p) (filter (\<lambda>i. 0 < i \<and> p ! i = CHR ''/'') [0..<length p])"

subsection \<open>External collaborators\<close>

text \<open>
  What \<^verbatim>\<open>subprocess.run(..., check=True)\<close> can do: return (exit code 0, with the
  output), raise \<^verbatim>\<open>CalledProcessError\<close> (exit code and error stream), or raise anything
  else (its text).
\<close>

datatype proc_result =
    Completed string
  | CalledProcessError int string
  | OtherException string

text \<open>
  The collaborators are parameters of the model: each is a function that says what the
  service, the operating system or the rendering engine answers. The number among the
  arguments tells one call from the next: it is the attempt of the generation loop, and
  \<open>MAX_ITERATIONS\<close>, which no attempt has, for the calls of the speech task.
  \<^item> \<open>uuid4 n\<close>: the text of the \<open>n\<close>-th identifier drawn;
  \<^item> \<open>chat_completions\<close>: scene, attempt and messages to the exception raised or to
    \<^verbatim>\<open>response.choices[0].message.content\<close> (which may be \<^verbatim>\<open>None\<close>);
  \<^item> \<open>synthesize\<close>: text, voice and format to the exception raised or to the audio bytes;
  \<^item> \<open>makedirs_error\<close>, \<open>open_error\<close>, \<open>remove_error\<close>, \<open>write_videofile_error\<close>:
    the exception, if any, that the call on this path raises;
  \<^item> \<open>subprocess_run\<close>: command, attempt and the code file's text to the outcome of the
    process and the duration of the clip it left at the scene's video path, if it left one;
  \<^item> \<open>wav_duration\<close>: the duration decoded from audio bytes, if they decode.
\<close>

record env =
  uuid4 :: "nat \<Rightarrow> string"
  chat_completions :: "string \<Rightarrow> nat \<Rightarrow> message list \<Rightarrow> exn + string option"
  synthesize :: "string \<Rightarrow> string \<Rightarrow> string \<Rightarrow> exn + string"
  makedirs_error :: "string \<Rightarrow> nat \<Rightarrow> exn option"
  open_error :: "string \<Rightarrow> nat \<Rightarrow> exn option"
  remove_error :: "string \<Rightarrow> exn option"
  write_videofile_error :: "string \<Rightarrow> exn option"
  subprocess_run :: "string \<Rightarrow> nat \<Rightarrow> string \<Rightarrow> proc_result \<times> real option"
  wav_duration :: "string \<Rightarrow> real option"

text \<open>\<^verbatim>\<open>os.makedirs(p)\<close>: the directory and every missing one above it.\<close>

definition makedirs :: "env \<Rightarrow> nat \<Rightarrow> string \<Rightarrow> world \<Rightarrow> exn option \<times> world" where
  "makedirs e n p w =
     (case makedirs_error e p n of
        Some x \<Rightarrow> (Some x, w)
      | None \<Rightarrow> (None, w\<lparr>dirs := dirs w \<union> set (p # ancestors p)\<rparr>))"

text \<open>
  \<^verbatim>\<open>with open(dir/name, mode) as f: f.write(data)\<close>: fails when the directory is
  not there or when the operating system says so, and leaves the file as it was then.
\<close>

definition write_file ::
  "env \<Rightarrow> nat \<Rightarrow> string \<Rightarrow> string \<Rightarrow> fdata \<Rightarrow> world \<Rightarrow> exn option \<times> world" where
  "write_file e n dir name d w =
     (if dir \<notin> dirs w
      then (Some (OSError (''No such file or directory: '' @ dir @ ''/'' @ name)), w)
      else case open_error e (dir @ ''/'' @ name) n of
             Some x \<Rightarrow> (Some x, w)
           | None \<Rightarrow> (None, w\<lparr>files := (files w)(dir @ ''/'' @ name \<mapsto> d)\<rparr>))"


section \<open>The class \<^verbatim>\<open>SceneGenerator\<close>\<close>

record scene_generator =
  scene_transcriptions :: "(string \<times> string) list"
  video_id :: string

text \<open>
  \<^verbatim>\<open>__init__\<close>: one fresh identifier per transcription, in the order of the list, then
  one for the video. The dictionary comprehension stores the pairs one after the other.
\<close>

definition init :: "env \<Rightarrow> string list \<Rightarrow> scene_generator" where
  "init e ts =
     \<lparr>scene_transcriptions =
        foldl (\<lambda>d (i, t). dict_set d (uuid4 e i) t) [] (zip [0..<length ts] ts),
      video_id = uuid4 e (length ts)\<rparr>"

definition scene_dir :: "string \<Rightarrow> string \<Rightarrow> string" where
  "scene_dir vid scene_id = GENERATIONS_PATH @ ''/'' @ vid @ ''/'' @ scene_id"

definition get_scene_path :: "string \<Rightarrow> string \<Rightarrow> string" where
  "get_scene_path scene_id vid =
     GENERATIONS_PATH @ ''/'' @ vid @ ''/'' @ scene_id @ ''/'' @ VIDEO_INTERNAL_PATH"

definition get_audio_path :: "string \<Rightarrow> string \<Rightarrow> string" where
  "get_audio_path scene_id vid =
     GENERATIONS_PATH @ ''/'' @ vid @ ''/'' @ scene_id @ ''/audio.wav''"

subsection \<open>\<^verbatim>\<open>render_scene\<close>\<close>

text \<open>
  Runs the rendering engine on the scene's code file. The result is the pair the method
  returns; the world gains the clip the engine wrote, if it wrote one.
\<close>

definition render_scene ::
  "env \<Rightarrow> scene_generator \<Rightarrow> string \<Rightarrow> nat \<Rightarrow> world \<Rightarrow> (bool \<times> string) \<times> world" where
  "render_scene e sg scene_id attempt w =
     (let command = ''manim render -ql '' @ scene_dir (video_id sg) scene_id @ ''/video.py''
                      @ '' -o video --media_dir '' @ scene_dir (video_id sg) scene_id;
          code = (case files w (scene_dir (video_id sg) scene_id @ ''/video.py'') of
                    Some (Text c) \<Rightarrow> c | _ \<Rightarrow> [])
      in case subprocess_run e command attempt code of (r, out) \<Rightarrow>
           let w' = (case out of
                       None \<Rightarrow> w
                     | Some d \<Rightarrow>
                         w\<lparr>files := (files w)(get_scene_path scene_id (video_id sg) \<mapsto> Rendered d)\<rparr>)
           in case r of
                Completed stdout \<Rightarrow> ((True, []), w')
              | CalledProcessError returncode stderr \<Rightarrow>
                  ((False, ''Command failed with exit code '' @ str_int returncode
                             @ ''. Error: '' @ py_strip py_whitespace stderr), w')
              | OtherException msg \<Rightarrow> ((False, msg), w'))"

subsection \<open>\<^verbatim>\<open>generate_speech\<close>\<close>

text \<open>
  The result is the exception raised or the value returned (\<^verbatim>\<open>None\<close> or the scene id),
  with the world after the call.
\<close>

definition generate_speech ::
  "env \<Rightarrow> scene_generator \<Rightarrow> string \<Rightarrow> string \<Rightarrow> world \<Rightarrow> (exn + string option) \<times> world" where
  "generate_speech e sg scene_id vid w =
     (case dict_get (scene_transcriptions sg) scene_id of
        Inl x \<Rightarrow> (Inl x, w)
      | Inr scene_transcription \<Rightarrow>
          (case synthesize e scene_transcription VOICE_ID ''wav'' of
             Inl x \<Rightarrow> (Inl x, w)
           | Inr audio \<Rightarrow>
               (case (if \<not> path_exists w (scene_dir vid scene_id)
                      then makedirs e MAX_ITERATIONS (scene_dir vid scene_id) w else (None, w)) of
                  (Some x, w1) \<Rightarrow> (Inl x, w1)
                | (None, w1) \<Rightarrow>
                    (case write_file e MAX_ITERATIONS (scene_dir vid scene_id) ''audio.wav''
                            (Bytes audio) w1 of
                       (Some x, w2) \<Rightarrow> (Inl x, w2)
                     | (None, w2) \<Rightarrow> (Inr (Some scene_id), w2)))))"

subsection \<open>\<^verbatim>\<open>generate_manim\<close>\<close>

text \<open>
  The loop's variables: the world, the conversation, and two counters kept for the
  properties below: the requests sent to the language model and the results of
  \<^verbatim>\<open>render_scene\<close>, in the order of the calls.
\<close>

record gm_state =
  gm_world :: world
  gm_messages :: "message list"
  gm_requests :: nat
  gm_renders :: "(bool \<times> string) list"

text \<open>The \<^verbatim>\<open>try\<close> block that writes \<^verbatim>\<open>video.py\<close>.\<close>

definition write_code ::
  "env \<Rightarrow> scene_generator \<Rightarrow> string \<Rightarrow> nat \<Rightarrow> string \<Rightarrow> world \<Rightarrow> exn option \<times> world" where
  "write_code e sg scene_id iteration output w =
     (case (if \<not> path_exists w (scene_dir (video_id sg) scene_id)
            then makedirs e iteration (scene_dir (video_id sg) scene_id) w else (None, w)) of
        (Some x, w1) \<Rightarrow> (Some x, w1)
      | (None, w1) \<Rightarrow>
          write_file e iteration (scene_dir (video_id sg) scene_id) ''video.py'' (Text output) w1)"

function generate_manim_loop ::
  "env \<Rightarrow> scene_generator \<Rightarrow> string \<Rightarrow> nat \<Rightarrow> gm_state \<Rightarrow> (exn + string option) \<times> gm_state" where
  "generate_manim_loop e sg scene_id iteration st =
     (if iteration < MAX_ITERATIONS then
        (case chat_completions e scene_id iteration (gm_messages st) of
           Inl x \<Rightarrow> (Inl x, st\<lparr>gm_requests := gm_requests st + 1\<rparr>)
         | Inr None \<Rightarrow>
             (Inl (AttributeError ''NoneType object has no attribute strip''),
              st\<lparr>gm_requests := gm_requests st + 1\<rparr>)
         | Inr (Some response) \<Rightarrow>
             (let output = py_strip ''```'' response;
                  st1 = st\<lparr>gm_requests := gm_requests st + 1,
                           gm_messages := gm_messages st @
                             [\<lparr>role = ''assistant'', content = output\<rparr>]\<rparr>
              in case write_code e sg scene_id iteration output (gm_world st1) of
                   (Some x, w1) \<Rightarrow>
                     (Inr None,
                      st1\<lparr>gm_world := logger ERROR (''Error writing to file: '' @ exn_str x) w1\<rparr>)
                 | (None, w1) \<Rightarrow>
                     (case render_scene e sg scene_id iteration w1 of
                        (render_output, w2) \<Rightarrow>
                          if fst render_output then
                            (Inr (Some scene_id),
                             st1\<lparr>gm_world := w2, gm_renders := gm_renders st1 @ [render_output]\<rparr>)
                          else
                            generate_manim_loop e sg scene_id (iteration + 1)
                              (st1\<lparr>gm_world := w2,
                                   gm_renders := gm_renders st1 @ [render_output],
                                   gm_messages := gm_messages st1 @
                                     [\<lparr>role = ''user'',
                                       content = ''Error: '' @ snd render_output\<rparr>]\<rparr>))))
      else (Inr None, st))"
  by pat_completeness auto
termination
  by (relation "measure (\<lambda>(e, sg, scene_id, iteration, st). MAX_ITERATIONS - iteration)") auto

declare generate_manim_loop.simps [simp del]

definition generate_manim ::
  "env \<Rightarrow> scene_generator \<Rightarrow> string \<Rightarrow> world \<Rightarrow> (exn + string option) \<times> gm_state" where
  "generate_manim e sg scene_id w =
     (case dict_get (scene_transcriptions sg) scene_id of
        Inl x \<Rightarrow> (Inl x, \<lparr>gm_world = w, gm_messages = [], gm_requests = 0, gm_renders = []\<rparr>)
      | Inr scene_transcription \<Rightarrow>
          generate_manim_loop e sg scene_id 0
            \<lparr>gm_world = w,
             gm_messages = [\<lparr>role = ''system'', content = SYSTEM_SCENE_PROMPT\<rparr>,
                            \<lparr>role = ''user'', content = scene_transcription\<rparr>],
             gm_requests = 0, gm_renders = []\<rparr>)"

subsection \<open>\<^verbatim>\<open>combine_manim_and_speech\<close>\<close>

text \<open>
  \<^verbatim>\<open>VideoFileClip(path)\<close> and \<^verbatim>\<open>AudioFileClip(path)\<close> read the duration from the
  file and raise when there is no such media file.
\<close>

definition load_video :: "world \<Rightarrow> string \<Rightarrow> exn + real" where
  "load_video w path =
     (case files w path of
        Some (Rendered d) \<Rightarrow> Inr d
      | Some (Written c) \<Rightarrow>
          (case v_duration c of
             Some d \<Rightarrow> Inr d
           | None \<Rightarrow> Inl (OSError (''MoviePy error: failed to read the duration of file '' @ path)))
      | _ \<Rightarrow> Inl (OSError (''MoviePy error: the file '' @ path @ '' could not be found!'')))"

definition load_audio :: "env \<Rightarrow> world \<Rightarrow> string \<Rightarrow> exn + real" where
  "load_audio e w path =
     (case files w path of
        Some (Bytes b) \<Rightarrow>
          (case wav_duration e b of
             Some d \<Rightarrow> Inr d
           | None \<Rightarrow> Inl (OSError (''MoviePy error: failed to read the duration of file '' @ path)))
      | _ \<Rightarrow> Inl (OSError (''MoviePy error: the file '' @ path @ '' could not be found!'')))"

text \<open>
  Lines 187 to 199: the shorter track is made as long as the other. The third component
  lists the times at which \<^verbatim>\<open>get_frame\<close> was called on the video.
\<close>

definition extend_tracks ::
  "string \<Rightarrow> vclip \<Rightarrow> aclip \<Rightarrow> real \<Rightarrow> real \<Rightarrow> vclip \<times> aclip \<times> real list" where
  "extend_tracks scene_path video audio video_duration audio_duration =
     (if audio_duration < video_duration then
        (let silence_duration = video_duration - audio_duration;
             silence = AudioClip_silence silence_duration
         in (video, CompositeAudioClip [audio, A_set_start silence audio_duration], []))
      else if audio_duration > video_duration then
        (let last_frame = Frame scene_path (video_duration - 0.1);
             frozen_clip = V_set_duration (ImageClip last_frame) (audio_duration - video_duration);
             video1 = CompositeVideoClip [video, V_set_start frozen_clip video_duration]
         in (V_set_duration video1 audio_duration, audio, [video_duration - 0.1]))
      else (video, audio, []))"

text \<open>
  Lines 201 to 207: both tracks are cut to the shorter duration and joined. The result is
  the three clips the method closes at its end: \<^verbatim>\<open>video\<close>, \<^verbatim>\<open>audio\<close> and
  \<^verbatim>\<open>final_clip\<close>.
\<close>

definition trim_and_mux :: "vclip \<Rightarrow> aclip \<Rightarrow> exn + vclip \<times> aclip \<times> vclip" where
  "trim_and_mux video audio =
     (case v_duration video of
        None \<Rightarrow> Inl (TypeError ''min: NoneType and float cannot be compared'')
      | Some vd \<Rightarrow>
          (let final_duration = min vd (a_duration audio);
               video' = V_subclip video 0 final_duration;
               audio' = A_subclip audio 0 final_duration
           in Inr (video', audio', V_set_audio video' audio')))"

datatype resource = Video_clip vclip | Audio_clip aclip

text \<open>
  What a run of the method leaves: the exception it raised, if any, the world, the times
  asked of \<^verbatim>\<open>get_frame\<close>, the muxed clip once it was built, and the clips on which
  \<^verbatim>\<open>close()\<close> was called, in order.
\<close>

record combine_result =
  c_raised :: "exn option"
  c_world :: world
  c_frame_times :: "real list"
  c_final_clip :: "vclip option"
  c_closed :: "resource list"

definition combine_manim_and_speech ::
  "env \<Rightarrow> scene_generator \<Rightarrow> string \<Rightarrow> string \<Rightarrow> world \<Rightarrow> combine_result" where
  "combine_manim_and_speech e sg scene_id vid w =
     (let scene_path = get_scene_path scene_id vid;
          audio_path = get_audio_path scene_id vid
      in case load_video w scene_path of
           Inl x \<Rightarrow> \<lparr>c_raised = Some x, c_world = w, c_frame_times = [],
                     c_final_clip = None, c_closed = []\<rparr>
         | Inr video_duration \<Rightarrow>
      (case load_audio e w audio_path of
           Inl x \<Rightarrow> \<lparr>c_raised = Some x, c_world = w, c_frame_times = [],
                     c_final_clip = None, c_closed = []\<rparr>
         | Inr audio_duration \<Rightarrow>
      (let w1 = (if \<not> audio_duration < video_duration \<and> audio_duration > video_duration
                 then logger WARNING
                        ''Audio is longer than video, extending video by holding the last frame'' w
                 else w)
       in case extend_tracks scene_path (VideoFileClip scene_path video_duration)
                 (AudioFileClip audio_path audio_duration) video_duration audio_duration of
            (video1, audio1, asked) \<Rightarrow>
      (case trim_and_mux video1 audio1 of
           Inl x \<Rightarrow> \<lparr>c_raised = Some x, c_world = w1, c_frame_times = asked,
                     c_final_clip = None, c_closed = []\<rparr>
         | Inr (video, audio, final_clip) \<Rightarrow>
      (case remove_error e scene_path of
           Some x \<Rightarrow> \<lparr>c_raised = Some x, c_world = w1, c_frame_times = asked,
                      c_final_clip = Some final_clip, c_closed = []\<rparr>
         | None \<Rightarrow>
      (let w2 = w1\<lparr>files := (files w1)(scene_path := None)\<rparr>
       in case write_videofile_error e scene_path of
            Some x \<Rightarrow> \<lparr>c_raised = Some x, c_world = w2, c_frame_times = asked,
                       c_final_clip = Some final_clip, c_closed = []\<rparr>
          | None \<Rightarrow>
              \<lparr>c_raised = None,
               c_world = w2\<lparr>files := (files w2)(scene_path \<mapsto> Written final_clip)\<rparr>,
               c_frame_times = asked,
               c_final_clip = Some final_clip,
               c_closed = [Video_clip video, Audio_clip audio, Video_clip final_clip]\<rparr>))))))"

subsection \<open>\<^verbatim>\<open>combine_video_scenes\<close>\<close>

text \<open>
  The \<^verbatim>\<open>for\<close> loop over the keys of the dictionary, with its two lists and the world
  (for the error lines). Loading a file that exists but is no video raises and ends the
  loop.
\<close>

fun collect_clips ::
  "string \<Rightarrow> string list \<Rightarrow> string list \<times> vclip list \<times> world \<Rightarrow>
     exn + string list \<times> vclip list \<times> world" where
  "collect_clips vid [] acc = Inr acc"
| "collect_clips vid (scene_id # rest) (scene_ids, video_clips, w) =
     (let scene_path = get_scene_path scene_id vid
      in if path_exists w scene_path then
           (case load_video w scene_path of
              Inl x \<Rightarrow> Inl x
            | Inr d \<Rightarrow>
                collect_clips vid rest
                  (scene_ids @ [scene_id], video_clips @ [VideoFileClip scene_path d], w))
         else
           collect_clips vid rest
             (scene_ids, video_clips,
              logger ERROR (''Video file does not exist at path: '' @ scene_path) w))"

text \<open>
  The result of the method: the exception raised or the value returned (\<^verbatim>\<open>None\<close> or
  the path of the final video), the world, and the two lists of the loop.
\<close>

record assembly =
  a_result :: "exn + string option"
  a_world :: world
  a_scene_ids :: "string list"
  a_video_clips :: "vclip list"

definition combine_video_scenes :: "env \<Rightarrow> scene_generator \<Rightarrow> world \<Rightarrow> assembly" where
  "combine_video_scenes e sg w =
     (case collect_clips (video_id sg) (dict_keys (scene_transcriptions sg)) ([], [], w) of
        Inl x \<Rightarrow> \<lparr>a_result = Inl x, a_world = w, a_scene_ids = [], a_video_clips = []\<rparr>
      | Inr (scene_ids, video_clips, w1) \<Rightarrow>
          if video_clips = [] then
            \<lparr>a_result = Inr None,
             a_world = logger ERROR ''No scenes were successfully generated.'' w1,
             a_scene_ids = scene_ids, a_video_clips = video_clips\<rparr>
          else
            (let final_video = Concatenate video_clips;
                 final_video_path = GENERATIONS_PATH @ ''/'' @ video_id sg @ ''/final_video.mp4''
             in case write_videofile_error e final_video_path of
                  Some x \<Rightarrow> \<lparr>a_result = Inl x, a_world = w1,
                             a_scene_ids = scene_ids, a_video_clips = video_clips\<rparr>
                | None \<Rightarrow>
                    \<lparr>a_result = Inr (Some final_video_path),
                     a_world = w1\<lparr>files := (files w1)(final_video_path \<mapsto> Written final_video)\<rparr>,
                     a_scene_ids = scene_ids, a_video_clips = video_clips\<rparr>))"

subsection \<open>\<^verbatim>\<open>generate_all_scenes\<close>\<close>

text \<open>
  \<^verbatim>\<open>asyncio.gather\<close> (without \<^verbatim>\<open>return_exceptions\<close>): the list of the results when
  every awaitable returns, and otherwise the exception of one that raised, raised again
  in the caller. The real call raises the exception that comes first in time; the model
  takes the first in the order of the arguments.
\<close>

fun gather :: "(exn + 'a) list \<Rightarrow> exn + 'a list" where
  "gather [] = Inr []"
| "gather (Inl x # rs) = Inl x"
| "gather (Inr r # rs) = (case gather rs of Inl x \<Rightarrow> Inl x | Inr vs \<Rightarrow> Inr (r # vs))"

text \<open>
  The two tasks of every scene. The event loop interleaves the tasks at their
  \<^verbatim>\<open>await\<close>s only, and each works on the files of its own scene, so the model runs
  them one after the other: for each scene the generation loop, then the speech task.
  Each pair of outcomes is what the inner \<^verbatim>\<open>gather\<close> receives.
\<close>

fun run_tasks ::
  "env \<Rightarrow> scene_generator \<Rightarrow> string list \<Rightarrow> world \<Rightarrow>
     (exn + string option) list list \<times> world" where
  "run_tasks e sg [] w = ([], w)"
| "run_tasks e sg (scene_id # rest) w =
     (case generate_manim e sg scene_id w of (manim_result, st) \<Rightarrow>
        (case generate_speech e sg scene_id (video_id sg) (gm_world st) of (speech_result, w1) \<Rightarrow>
           (case run_tasks e sg rest w1 of (rs, w2) \<Rightarrow>
              ([manim_result, speech_result] # rs, w2))))"

text \<open>
  The loop after the \<^verbatim>\<open>gather\<close>: a scene with a \<^verbatim>\<open>None\<close> among its two results is
  logged and skipped, the others are muxed; an exception of the muxing ends the loop.
\<close>

fun combine_all ::
  "env \<Rightarrow> scene_generator \<Rightarrow> (string option list \<times> string) list \<Rightarrow> world \<Rightarrow> exn + world" where
  "combine_all e sg [] w = Inr w"
| "combine_all e sg ((results, scene_id) # rest) w =
     (case results of
        [manim_result, speech_result] \<Rightarrow>
          if manim_result = None \<or> speech_result = None then
            combine_all e sg rest
              (logger ERROR (''Scene '' @ scene_id @ '' was not generated successfully'') w)
          else
            (let r = combine_manim_and_speech e sg scene_id (video_id sg) w
             in case c_raised r of
                  Some x \<Rightarrow> Inl x
                | None \<Rightarrow> combine_all e sg rest (c_world r))
      | _ \<Rightarrow> Inl (ValueError ''not enough values to unpack''))"

text \<open>
  The result is the exception with which the coroutine ends or the value it returns,
  with the world at that point.
\<close>

definition generate_all_scenes ::
  "env \<Rightarrow> scene_generator \<Rightarrow> world \<Rightarrow> exn + string \<times> world" where
  "generate_all_scenes e sg w =
     (case run_tasks e sg (dict_keys (scene_transcriptions sg)) w of (tasks, w1) \<Rightarrow>
        (case gather (map gather tasks) of
           Inl x \<Rightarrow> Inl x
         | Inr results \<Rightarrow>
             (case combine_all e sg (zip results (dict_keys (scene_transcriptions sg))) w1 of
                Inl x \<Rightarrow> Inl x
              | Inr w2 \<Rightarrow>
                  (let a = combine_video_scenes e sg w2
                   in case a_result a of
                        Inl x \<Rightarrow> Inl x
                      | Inr final_video_path \<Rightarrow> Inr (video_id sg, a_world a)))))"


section \<open>Notions used in the properties\<close>

text \<open>
  The \<open>k\<close>-th call of the rendering adapter (counted from 1) is the first that reports
  success.
\<close>

definition first_success_at :: "nat \<Rightarrow> (bool \<times> string) list \<Rightarrow> bool" where
  "first_success_at k rs \<longleftrightarrow>
     0 < k \<and> k \<le> length rs \<and> fst (rs ! (k - 1)) \<and> list_all (\<lambda>r. \<not> fst r) (take (k - 1) rs)"

text \<open>No call of the rendering adapter reported success.\<close>

definition all_failed :: "(bool \<times> string) list \<Rightarrow> bool" where
  "all_failed rs \<longleftrightarrow> list_all (\<lambda>r. \<not> fst r) rs"

text \<open>
  The three ways in which the generation loop ends: a rendering succeeded; every attempt
  was used up; or an attempt stopped before its rendering (the request raised or the
  code file could not be written).
\<close>

definition accepted :: "string \<Rightarrow> exn + string option \<Rightarrow> gm_state \<Rightarrow> bool" where
  "accepted scene_id ret st \<longleftrightarrow>
     ret = Inr (Some scene_id) \<and> gm_renders st \<noteq> [] \<and> fst (last (gm_renders st)) \<and>
     all_failed (butlast (gm_renders st)) \<and> gm_requests st = length (gm_renders st) \<and>
     gm_requests st \<le> MAX_ITERATIONS"

definition exhausted :: "exn + string option \<Rightarrow> gm_state \<Rightarrow> bool" where
  "exhausted ret st \<longleftrightarrow>
     ret = Inr None \<and> all_failed (gm_renders st) \<and> length (gm_renders st) = MAX_ITERATIONS \<and>
     gm_requests st = MAX_ITERATIONS"

definition stopped_early :: "exn + string option \<Rightarrow> gm_state \<Rightarrow> bool" where
  "stopped_early ret st \<longleftrightarrow>
     (ret = Inr None \<or> (\<exists>x. ret = Inl x)) \<and> all_failed (gm_renders st) \<and>
     gm_requests st = length (gm_renders st) + 1 \<and> gm_requests st \<le> MAX_ITERATIONS"

text \<open>The world before the first run: no directory, no file, an empty log.\<close>

definition empty_world :: world where
  "empty_world = \<lparr>dirs = {}, files = Map.empty, logged = []\<rparr>"

text \<open>
  A small environment for concrete runs: the language model always answers \<open>reply\<close>,
  the rendering engine fails on the attempts before \<open>first_ok\<close> and then leaves a clip
  of 5 seconds, the speech service answers when \<open>speech_ok\<close> holds (audio of 8 seconds),
  and \<^verbatim>\<open>write_videofile\<close> works when \<open>mux_ok\<close> holds. With it, a generator of
  two scenes.
\<close>

definition example_env :: "string \<Rightarrow> nat \<Rightarrow> bool \<Rightarrow> bool \<Rightarrow> env" where
  "example_env reply first_ok speech_ok mux_ok =
     \<lparr>uuid4 = (\<lambda>n. ''scene'' @ str_nat n),
      chat_completions = (\<lambda>scene_id n msgs. Inr (Some reply)),
      synthesize = (\<lambda>text voice fmt.
         if speech_ok then Inr ''RIFF'' else Inl (ServiceError ''speech service unavailable'')),
      makedirs_error = (\<lambda>p n. None),
      open_error = (\<lambda>p n. None),
      remove_error = (\<lambda>p. None),
      write_videofile_error = (\<lambda>p. if mux_ok then None else Some (OSError ''No space left on device'')),
      subprocess_run = (\<lambda>command n code.
         if first_ok \<le> n then (Completed [], Some 5)
         else (CalledProcessError 1 ''NameError: name Circl is not defined'', None)),
      wav_duration = (\<lambda>b. Some 8)\<rparr>"

definition example_sg :: scene_generator where
  "example_sg = \<lparr>scene_transcriptions = [(''s1'', ''Bananas are berries.''), (''s2'', ''The internet began in 1969.'')],
                 video_id = ''v''\<rparr>"

text \<open>
  A path is loadable when, if it exists, it holds a video that \<^verbatim>\<open>VideoFileClip\<close>
  can open.
\<close>

definition loadable :: "world \<Rightarrow> string \<Rightarrow> bool" where
  "loadable w p \<longleftrightarrow> (path_exists w p \<longrightarrow> \<not> isl (load_video w p))"

text \<open>The times at which a clip of duration \<open>d\<close> has a frame.\<close>

definition valid_frame_time :: "real \<Rightarrow> real \<Rightarrow> bool" where
  "valid_frame_time d t \<longleftrightarrow> 0 \<le> t \<and> t \<le> d"

text \<open>The path under which \<^verbatim>\<open>combine_video_scenes\<close> writes the final video.\<close>

definition final_video_path :: "scene_generator \<Rightarrow> string" where
  "final_video_path sg = GENERATIONS_PATH @ ''/'' @ video_id sg @ ''/final_video.mp4''"

text \<open>
  Worlds for concrete runs: one scene with a rendered clip of \<open>d\<close> seconds and its audio
  file; and three scenes of which the second has no clip.
\<close>

definition media_world :: "string \<Rightarrow> string \<Rightarrow> real \<Rightarrow> world" where
  "media_world scene_id vid d =
     \<lparr>dirs = {},
      files = [get_scene_path scene_id vid \<mapsto> Rendered d, get_audio_path scene_id vid \<mapsto> Bytes ''RIFF''],
      logged = []\<rparr>"

definition partial_world :: world where
  "partial_world =
     \<lparr>dirs = {},
      files = [get_scene_path ''scene0'' ''scene3'' \<mapsto> Rendered 4,
               get_scene_path ''scene2'' ''scene3'' \<mapsto> Rendered 6],
      logged = []\<rparr>"

text \<open>An environment in which the speech service fails for one text only.\<close>

definition speech_fails_for :: "string \<Rightarrow> env" where
  "speech_fails_for text =
     (example_env ''class VideoScene: pass'' 0 True True)
       \<lparr>synthesize := (\<lambda>t voice fmt.
          if t = text then Inl (ServiceError ''speech service unavailable'') else Inr ''RIFF'')\<rparr>"


section \<open>The generation loop\<close>

lemma loop_shape:
  assumes "generate_manim_loop e sg scene_id i st = (ret, st')"
    and "i \<le> MAX_ITERATIONS" and "gm_requests st = i" and "length (gm_renders st) = i"
    and "all_failed (gm_renders st)"
  shows "accepted scene_id ret st' \<or> exhausted ret st' \<or> stopped_early ret st'"
  using assms
proof (induction e sg scene_id i st arbitrary: ret st' rule: generate_manim_loop.induct)
  case (1 e sg scene_id i st)
  note run = "1.prems"(1)
  show ?case
  proof (cases "i < MAX_ITERATIONS")
    case False
    with "1.prems" have "i = MAX_ITERATIONS" by simp
    moreover from run False have "ret = Inr None" "st' = st"
      by (simp_all add: generate_manim_loop.simps)
    ultimately have "exhausted ret st'" using "1.prems" by (simp add: exhausted_def)
    then show ?thesis by simp
  next
    case True
    show ?thesis
    proof (cases "chat_completions e scene_id i (gm_messages st)")
      case (Inl x)
      with run True have "ret = Inl x" "st' = st\<lparr>gm_requests := gm_requests st + 1\<rparr>"
        by (simp_all add: generate_manim_loop.simps)
      then have "stopped_early ret st'" using "1.prems" True by (simp add: stopped_early_def)
      then show ?thesis by simp
    next
      case (Inr reply)
      show ?thesis
      proof (cases reply)
        case None
        with run True Inr have "\<exists>x. ret = Inl x" "st' = st\<lparr>gm_requests := gm_requests st + 1\<rparr>"
          by (auto simp add: generate_manim_loop.simps)
        then have "stopped_early ret st'" using "1.prems" True by (auto simp add: stopped_early_def)
        then show ?thesis by simp
      next
        case (Some response)
        define out where "out = py_strip ''```'' response"
        define st1 where "st1 = st\<lparr>gm_requests := gm_requests st + 1,
                           gm_messages := gm_messages st @
                             [\<lparr>role = ''assistant'', content = out\<rparr>]\<rparr>"
        obtain err w1 where wc: "write_code e sg scene_id i out (gm_world st1) = (err, w1)"
          by (cases "write_code e sg scene_id i out (gm_world st1)")
        show ?thesis
        proof (cases err)
          case (Some x)
          with run True Inr \<open>reply = Some response\<close> wc
          have "ret = Inr None"
            "st' = st1\<lparr>gm_world := logger ERROR (''Error writing to file: '' @ exn_str x) w1\<rparr>"
            by (simp_all add: generate_manim_loop.simps [of e sg scene_id i st] out_def st1_def Let_def)
          then have "stopped_early ret st'" using "1.prems" True
            by (simp add: stopped_early_def st1_def)
          then show ?thesis by simp
        next
          case None
          obtain render_output w2 where rs: "render_scene e sg scene_id i w1 = (render_output, w2)"
            by (cases "render_scene e sg scene_id i w1")
          show ?thesis
          proof (cases "fst render_output")
            case True
            with run \<open>i < MAX_ITERATIONS\<close> Inr \<open>reply = Some response\<close> wc None rs
            have "ret = Inr (Some scene_id)"
              "st' = st1\<lparr>gm_world := w2, gm_renders := gm_renders st1 @ [render_output]\<rparr>"
              by (simp_all add: generate_manim_loop.simps [of e sg scene_id i st] out_def st1_def Let_def)
            then have "accepted scene_id ret st'" using "1.prems" True \<open>i < MAX_ITERATIONS\<close>
              by (simp add: accepted_def st1_def)
            then show ?thesis by simp
          next
            case False
            let ?st2 = "st1\<lparr>gm_world := w2,
                                   gm_renders := gm_renders st1 @ [render_output],
                                   gm_messages := gm_messages st1 @
                                     [\<lparr>role = ''user'',
                                       content = ''Error: '' @ snd render_output\<rparr>]\<rparr>"
            from run \<open>i < MAX_ITERATIONS\<close> Inr \<open>reply = Some response\<close> wc None rs False
            have next_run: "generate_manim_loop e sg scene_id (i + 1) ?st2 = (ret, st')"
              by (simp add: generate_manim_loop.simps [of e sg scene_id i st] out_def st1_def Let_def)
            have out_eq: "out = py_strip ''```'' response" by (simp add: out_def)
            have st1_eq: "st1 = st\<lparr>gm_requests := gm_requests st + 1,
                           gm_messages := gm_messages st @
                             [\<lparr>role = ''assistant'', content = out\<rparr>]\<rparr>" by (simp add: st1_def)
            have wc': "(err, w1) = write_code e sg scene_id i out (gm_world st1)" using wc by simp
            have rs': "(render_output, w2) = render_scene e sg scene_id i w1" using rs by simp
            have "accepted scene_id ret st' \<or> exhausted ret st' \<or> stopped_early ret st'"
              using "1.prems" \<open>i < MAX_ITERATIONS\<close> False
              by (intro "1.IH" [OF \<open>i < MAX_ITERATIONS\<close> Inr \<open>reply = Some response\<close> out_eq st1_eq wc' None rs' False next_run])
                 (simp_all add: st1_def all_failed_def)
            then show ?thesis .
          qed
        qed
      qed
    qed
  qed
qed

text \<open>
  Claim C1. For every scene, \<^verbatim>\<open>generate_manim\<close> sends at most \<open>MAX_ITERATIONS\<close> (5)
  requests to the language model. If the rendering adapter reports its first success on
  attempt \<open>k\<close>, then \<open>k \<le> MAX_ITERATIONS\<close>, exactly \<open>k\<close> requests were sent and the
  scene id is returned. If all \<open>MAX_ITERATIONS\<close> renderings fail, the method returns
  \<^verbatim>\<open>None\<close> (it does not raise) after \<open>MAX_ITERATIONS\<close> requests.
\<close>

theorem generate_manim_bounded:
  assumes "generate_manim e sg scene_id w = (ret, st)"
  shows "gm_requests st \<le> MAX_ITERATIONS \<and> MAX_ITERATIONS = 5 \<and>
         (first_success_at k (gm_renders st) \<longrightarrow>
            k \<le> MAX_ITERATIONS \<and> gm_requests st = k \<and> ret = Inr (Some scene_id)) \<and>
         (length (gm_renders st) = MAX_ITERATIONS \<and> list_all (\<lambda>r. \<not> fst r) (gm_renders st) \<longrightarrow>
            gm_requests st = MAX_ITERATIONS \<and> ret = Inr None)"
proof (cases "dict_get (scene_transcriptions sg) scene_id")
  case (Inl x)
  with assms have "st = \<lparr>gm_world = w, gm_messages = [], gm_requests = 0, gm_renders = []\<rparr>"
    by (simp add: generate_manim_def)
  then show ?thesis by (auto simp add: first_success_at_def MAX_ITERATIONS_def)
next
  case (Inr t)
  with assms have "generate_manim_loop e sg scene_id 0
            \<lparr>gm_world = w,
             gm_messages = [\<lparr>role = ''system'', content = SYSTEM_SCENE_PROMPT\<rparr>,
                            \<lparr>role = ''user'', content = t\<rparr>],
             gm_requests = 0, gm_renders = []\<rparr> = (ret, st)"
    by (simp add: generate_manim_def)
  then have shape: "accepted scene_id ret st \<or> exhausted ret st \<or> stopped_early ret st"
    by (rule loop_shape) (simp_all add: all_failed_def)
  have bound: "gm_requests st \<le> MAX_ITERATIONS"
    using shape by (auto simp add: accepted_def exhausted_def stopped_early_def)
  have first: "k \<le> MAX_ITERATIONS \<and> gm_requests st = k \<and> ret = Inr (Some scene_id)"
    if fs: "first_success_at k (gm_renders st)"
  proof -
    from fs have k: "0 < k" "k \<le> length (gm_renders st)" "fst (gm_renders st ! (k - 1))"
      by (simp_all add: first_success_at_def)
    then have mem: "gm_renders st ! (k - 1) \<in> set (gm_renders st)" by simp
    have not_all: "\<not> all_failed (gm_renders st)"
      using mem k(3) by (auto simp add: all_failed_def list_all_iff)
    with shape have acc: "accepted scene_id ret st"
      by (auto simp add: exhausted_def stopped_early_def)
    have "k = length (gm_renders st)"
    proof (rule ccontr)
      assume "k \<noteq> length (gm_renders st)"
      with k have lt: "k - 1 < length (butlast (gm_renders st))" by simp
      then have "butlast (gm_renders st) ! (k - 1) \<in> set (butlast (gm_renders st))"
        by (rule nth_mem)
      moreover have "butlast (gm_renders st) ! (k - 1) = gm_renders st ! (k - 1)"
        using lt by (simp add: nth_butlast)
      ultimately show False
        using acc k(3) by (auto simp add: accepted_def all_failed_def list_all_iff)
    qed
    with acc show ?thesis by (simp add: accepted_def)
  qed
  have last: "gm_requests st = MAX_ITERATIONS \<and> ret = Inr None"
    if "length (gm_renders st) = MAX_ITERATIONS" and "list_all (\<lambda>r. \<not> fst r) (gm_renders st)"
  proof -
    from that have ne: "gm_renders st \<noteq> []" by (auto simp add: MAX_ITERATIONS_def)
    have "\<not> accepted scene_id ret st"
      using that(2) last_in_set [OF ne] by (auto simp add: accepted_def list_all_iff)
    moreover have "\<not> stopped_early ret st"
      using that(1) by (simp add: stopped_early_def)
    ultimately have "exhausted ret st" using shape by simp
    then show ?thesis by (simp add: exhausted_def)
  qed
  show ?thesis using bound first last by (simp add: MAX_ITERATIONS_def)
qed

theorem generate_manim_bounded_witness:
  "first_success_at 3 (gm_renders (snd (generate_manim
       (example_env ''class VideoScene: pass'' 2 True True) example_sg ''s1'' empty_world))) \<and>
   gm_requests (snd (generate_manim
       (example_env ''class VideoScene: pass'' 2 True True) example_sg ''s1'' empty_world)) = 3 \<and>
   fst (generate_manim
       (example_env ''class VideoScene: pass'' 2 True True) example_sg ''s1'' empty_world)
     = Inr (Some ''s1'') \<and>
   length (gm_renders (snd (generate_manim
       (example_env ''class VideoScene: pass'' 9 True True) example_sg ''s1'' empty_world)))
     = MAX_ITERATIONS \<and>
   list_all (\<lambda>r. \<not> fst r) (gm_renders (snd (generate_manim
       (example_env ''class VideoScene: pass'' 9 True True) example_sg ''s1'' empty_world))) \<and>
   gm_requests (snd (generate_manim
       (example_env ''class VideoScene: pass'' 9 True True) example_sg ''s1'' empty_world))
     = MAX_ITERATIONS \<and>
   fst (generate_manim
       (example_env ''class VideoScene: pass'' 9 True True) example_sg ''s1'' empty_world)
     = Inr None"
proof -
  let ?run1 = "generate_manim
       (example_env ''class VideoScene: pass'' 2 True True) example_sg ''s1'' empty_world"
  let ?run2 = "generate_manim
       (example_env ''class VideoScene: pass'' 9 True True) example_sg ''s1'' empty_world"
  have h1: "first_success_at 3 (gm_renders (snd ?run1))"
    by code_simp
  have h2: "length (gm_renders (snd ?run2)) = MAX_ITERATIONS"
    by code_simp
  have h3: "list_all (\<lambda>r. \<not> fst r) (gm_renders (snd ?run2))"
    by code_simp
  have r1: "?run1 = (fst ?run1, snd ?run1)" by simp
  have r2: "?run2 = (fst ?run2, snd ?run2)" by simp
  show ?thesis
    using generate_manim_bounded [OF r1, of 3] generate_manim_bounded [OF r2, of 0] h1 h2 h3
    by simp
qed
text \<open>
  Claim C8 says that the code stored as the assistant message and written to
  \<^verbatim>\<open>video.py\<close> is the reply without its code fence. The code calls
  \<^verbatim>\<open>strip\<close> with the three backquotes, which removes backquotes at both ends and
  nothing else: of a reply fenced with a language tag the tag stays as the first line,
  and when a line break follows the closing fence, the closing fence stays too.
\<close>

theorem code_fence_survives_strip:
  "content (gm_messages (snd (generate_manim
       (example_env ''```python\<newline>print(1)\<newline>```'' 0 True True)
       example_sg ''s1'' empty_world)) ! 2) = ''python\<newline>print(1)\<newline>'' \<and>
   files (gm_world (snd (generate_manim
       (example_env ''```python\<newline>print(1)\<newline>```'' 0 True True)
       example_sg ''s1'' empty_world))) ''generated/v/s1/video.py''
     = Some (Text ''python\<newline>print(1)\<newline>'') \<and>
   content (gm_messages (snd (generate_manim
       (example_env ''```python\<newline>print(1)\<newline>```\<newline>'' 0 True True)
       example_sg ''s1'' empty_world)) ! 2) = ''python\<newline>print(1)\<newline>```\<newline>'' \<and>
   files (gm_world (snd (generate_manim
       (example_env ''```python\<newline>print(1)\<newline>```\<newline>'' 0 True True)
       example_sg ''s1'' empty_world))) ''generated/v/s1/video.py''
     = Some (Text ''python\<newline>print(1)\<newline>```\<newline>'')"
  by code_simp


section \<open>Speech synthesis\<close>

text \<open>
  Claim C9. When the call of the speech service raises, \<^verbatim>\<open>generate_speech\<close> raises
  the same exception and has changed nothing: the scene directory has not been created
  and no audio file has been written, because the service is called before either.
\<close>

theorem generate_speech_failure_leaves_no_files:
  assumes "dict_get (scene_transcriptions sg) scene_id = Inr text"
    and "synthesize e text VOICE_ID ''wav'' = Inl x"
  shows "generate_speech e sg scene_id vid w = (Inl x, w)"
  using assms by (simp add: generate_speech_def)

theorem generate_speech_failure_leaves_no_files_witness:
  "dict_get (scene_transcriptions example_sg) ''s1'' = Inr ''Bananas are berries.'' \<and>
   synthesize (example_env [] 0 False True) ''Bananas are berries.'' VOICE_ID ''wav''
     = Inl (ServiceError ''speech service unavailable'') \<and>
   generate_speech (example_env [] 0 False True) example_sg ''s1'' ''v'' empty_world
     = (Inl (ServiceError ''speech service unavailable''), empty_world)"
proof -
  have h1: "dict_get (scene_transcriptions example_sg) ''s1'' = Inr ''Bananas are berries.''"
    by code_simp
  have h2: "synthesize (example_env [] 0 False True) ''Bananas are berries.'' VOICE_ID ''wav''
     = Inl (ServiceError ''speech service unavailable'')"
    by code_simp
  show ?thesis
    using generate_speech_failure_leaves_no_files [OF h1 h2, of "''v''" empty_world] h1 h2
    by simp
qed


section \<open>Duration reconciliation\<close>

lemma combine_final_clip:
  assumes "load_video w (get_scene_path scene_id vid) = Inr v"
    and "load_audio e w (get_audio_path scene_id vid) = Inr a"
    and "extend_tracks (get_scene_path scene_id vid) (VideoFileClip (get_scene_path scene_id vid) v)
           (AudioFileClip (get_audio_path scene_id vid) a) v a = (video1, audio1, asked)"
    and "trim_and_mux video1 audio1 = Inr (video, audio, final_clip)"
  shows "c_final_clip (combine_manim_and_speech e sg scene_id vid w) = Some final_clip"
    and "c_frame_times (combine_manim_and_speech e sg scene_id vid w) = asked"
  using assms
  by (simp_all add: combine_manim_and_speech_def Let_def split: option.split)



text \<open>
  Claim C10. When the audio is longer than the video, the held frame is sampled at
  \<open>v - 0.1\<close> seconds. That time lies within the clip exactly when \<open>0.1 \<le> v\<close>: for a
  clip shorter than 0.1 seconds it is negative, outside the clip.
\<close>

theorem frozen_frame_sample_time:
  assumes "load_video w (get_scene_path scene_id vid) = Inr v"
    and "load_audio e w (get_audio_path scene_id vid) = Inr a"
    and "v < a"
  shows "c_frame_times (combine_manim_and_speech e sg scene_id vid w) = [v - 0.1] \<and>
         (list_all (valid_frame_time v) (c_frame_times (combine_manim_and_speech e sg scene_id vid w))
            \<longleftrightarrow> 0.1 \<le> v) \<and>
         (v < 0.1 \<longrightarrow> \<not> valid_frame_time v (v - 0.1))"
proof -
  let ?sp = "get_scene_path scene_id vid" and ?ap = "get_audio_path scene_id vid"
  obtain video1 audio1 where ext:
    "extend_tracks ?sp (VideoFileClip ?sp v) (AudioFileClip ?ap a) v a = (video1, audio1, [v - 0.1])"
    and dv: "v_duration video1 = Some a"
    using assms(3) by (simp add: extend_tracks_def Let_def v_duration_def)
  have mux: "trim_and_mux video1 audio1 =
      Inr (V_subclip video1 0 (min a (a_duration audio1)),
           A_subclip audio1 0 (min a (a_duration audio1)),
           V_set_audio (V_subclip video1 0 (min a (a_duration audio1)))
                       (A_subclip audio1 0 (min a (a_duration audio1))))"
    by (simp add: trim_and_mux_def dv Let_def)
  have "c_frame_times (combine_manim_and_speech e sg scene_id vid w) = [v - 0.1]"
    using assms(1,2) ext mux by (rule combine_final_clip(2))
  then show ?thesis by (simp add: valid_frame_time_def)
qed

theorem frozen_frame_sample_time_witness:
  "c_frame_times (combine_manim_and_speech (example_env [] 0 True True) example_sg ''s1'' ''v''
      (media_world ''s1'' ''v'' 5)) = [4.9] \<and>
   valid_frame_time 5 4.9 \<and>
   c_frame_times (combine_manim_and_speech (example_env [] 0 True True) example_sg ''s1'' ''v''
      (media_world ''s1'' ''v'' 0.05)) = [- 0.05] \<and>
   \<not> valid_frame_time 0.05 (- 0.05)"
proof -
  let ?e = "example_env [] 0 True True"
  have v5: "load_video (media_world ''s1'' ''v'' 5) (get_scene_path ''s1'' ''v'') = Inr 5"
    by code_simp
  have a5: "load_audio ?e (media_world ''s1'' ''v'' 5) (get_audio_path ''s1'' ''v'') = Inr 8"
    by code_simp
  have vs: "load_video (media_world ''s1'' ''v'' 0.05) (get_scene_path ''s1'' ''v'') = Inr 0.05"
    by code_simp
  have as: "load_audio ?e (media_world ''s1'' ''v'' 0.05) (get_audio_path ''s1'' ''v'') = Inr 8"
    by code_simp
  show ?thesis
    using frozen_frame_sample_time [OF v5 a5, of example_sg]
      frozen_frame_sample_time [OF vs as, of example_sg]
    by (simp add: valid_frame_time_def)
qed

text \<open>
  Claim C4 says that the three clips are closed on every path, whether or not the write
  of the muxed file succeeds. It fails: when \<^verbatim>\<open>write_videofile\<close> raises, the muxed
  clip has been built and no clip is closed.
\<close>

theorem clips_not_closed_counterexample:
  "c_raised (combine_manim_and_speech (example_env [] 0 True False) example_sg ''s1'' ''v''
      (media_world ''s1'' ''v'' 10)) = Some (OSError ''No space left on device'') \<and>
   c_final_clip (combine_manim_and_speech (example_env [] 0 True False) example_sg ''s1'' ''v''
      (media_world ''s1'' ''v'' 10)) \<noteq> None \<and>
   c_closed (combine_manim_and_speech (example_env [] 0 True False) example_sg ''s1'' ''v''
      (media_world ''s1'' ''v'' 10)) = []"
  by code_simp

text \<open>
  Claim C4, amended. The three clips (\<^verbatim>\<open>video\<close>, \<^verbatim>\<open>audio\<close>,
  \<^verbatim>\<open>final_clip\<close>) are closed, in this order, when the method returns, that is when
  loading, removing the old file and writing the muxed file all succeeded; when one of
  them raises, the exception leaves the method and no clip has been closed.
\<close>

theorem clips_closed_when_written:
  "(c_raised (combine_manim_and_speech e sg scene_id vid w) = None \<longrightarrow>
      (\<exists>video audio.
         c_final_clip (combine_manim_and_speech e sg scene_id vid w) = Some (V_set_audio video audio) \<and>
         c_closed (combine_manim_and_speech e sg scene_id vid w) =
           [Video_clip video, Audio_clip audio, Video_clip (V_set_audio video audio)])) \<and>
   (c_raised (combine_manim_and_speech e sg scene_id vid w) \<noteq> None \<longrightarrow>
      c_closed (combine_manim_and_speech e sg scene_id vid w) = [])"
  by (auto simp add: combine_manim_and_speech_def trim_and_mux_def Let_def
      split: sum.splits option.splits prod.splits)

theorem clips_closed_when_written_witness:
  "c_raised (combine_manim_and_speech (example_env [] 0 True True) example_sg ''s1'' ''v''
      (media_world ''s1'' ''v'' 10)) = None \<and>
   length (c_closed (combine_manim_and_speech (example_env [] 0 True True) example_sg ''s1'' ''v''
      (media_world ''s1'' ''v'' 10))) = 3 \<and>
   c_raised (combine_manim_and_speech (example_env [] 0 True False) example_sg ''s1'' ''v''
      (media_world ''s1'' ''v'' 10)) \<noteq> None \<and>
   c_closed (combine_manim_and_speech (example_env [] 0 True False) example_sg ''s1'' ''v''
      (media_world ''s1'' ''v'' 10)) = []"
proof -
  have ok: "c_raised (combine_manim_and_speech (example_env [] 0 True True) example_sg ''s1'' ''v''
      (media_world ''s1'' ''v'' 10)) = None"
    by code_simp
  have bad: "c_raised (combine_manim_and_speech (example_env [] 0 True False) example_sg ''s1'' ''v''
      (media_world ''s1'' ''v'' 10)) \<noteq> None"
    by code_simp
  show ?thesis
    using clips_closed_when_written [of "example_env [] 0 True True" example_sg "''s1''" "''v''"
        "media_world ''s1'' ''v'' 10"]
      clips_closed_when_written [of "example_env [] 0 True False" example_sg "''s1''" "''v''"
        "media_world ''s1'' ''v'' 10"] ok bad
    by auto
qed


section \<open>Assembly of the final video\<close>

lemma path_exists_logged [simp]: "path_exists (w\<lparr>logged := l\<rparr>) p = path_exists w p"
  by (simp add: path_exists_def)

lemma load_video_logged [simp]: "load_video (w\<lparr>logged := l\<rparr>) p = load_video w p"
  by (simp add: load_video_def)

lemma path_exists_logger [simp]: "path_exists (logger l m w) p = path_exists w p"
  by (simp add: logger_def)

lemma load_video_logger [simp]: "load_video (logger l m w) p = load_video w p"
  by (simp add: logger_def)

lemma collect_clips_eq:
  assumes "\<forall>s \<in> set keys. path_exists w (get_scene_path s vid) \<longrightarrow> (\<exists>d. load_video w (get_scene_path s vid) = Inr d)"
  shows "collect_clips vid keys (ids, clips, w) =
     Inr (ids @ filter (\<lambda>s. path_exists w (get_scene_path s vid)) keys,
          clips @ map (\<lambda>s. VideoFileClip (get_scene_path s vid) (projr (load_video w (get_scene_path s vid))))
                   (filter (\<lambda>s. path_exists w (get_scene_path s vid)) keys),
          w\<lparr>logged := logged w @ map (\<lambda>s. (ERROR, ''Video file does not exist at path: '' @ get_scene_path s vid))
                   (filter (\<lambda>s. \<not> path_exists w (get_scene_path s vid)) keys)\<rparr>)"
  using assms
proof (induction keys arbitrary: ids clips w)
  case Nil
  then show ?case by simp
next
  case (Cons k keys)
  show ?case
  proof (cases "path_exists w (get_scene_path k vid)")
    case True
    with Cons.prems obtain d where d: "load_video w (get_scene_path k vid) = Inr d" by auto
    have "collect_clips vid (k # keys) (ids, clips, w) =
          collect_clips vid keys (ids @ [k], clips @ [VideoFileClip (get_scene_path k vid) d], w)"
      using True d by simp
    also have "\<dots> = Inr ((ids @ [k]) @ filter (\<lambda>s. path_exists w (get_scene_path s vid)) keys,
          (clips @ [VideoFileClip (get_scene_path k vid) d]) @ map (\<lambda>s. VideoFileClip (get_scene_path s vid) (projr (load_video w (get_scene_path s vid))))
                   (filter (\<lambda>s. path_exists w (get_scene_path s vid)) keys),
          w\<lparr>logged := logged w @ map (\<lambda>s. (ERROR, ''Video file does not exist at path: '' @ get_scene_path s vid))
                   (filter (\<lambda>s. \<not> path_exists w (get_scene_path s vid)) keys)\<rparr>)"
      using Cons.prems by (intro Cons.IH) simp
    finally show ?thesis using True d by simp
  next
    case False
    let ?w = "logger ERROR (''Video file does not exist at path: '' @ get_scene_path k vid) w"
    have "collect_clips vid (k # keys) (ids, clips, w) = collect_clips vid keys (ids, clips, ?w)"
      using False by simp
    also have "\<dots> = Inr (ids @ filter (\<lambda>s. path_exists ?w (get_scene_path s vid)) keys,
          clips @ map (\<lambda>s. VideoFileClip (get_scene_path s vid) (projr (load_video ?w (get_scene_path s vid))))
                   (filter (\<lambda>s. path_exists ?w (get_scene_path s vid)) keys),
          ?w\<lparr>logged := logged ?w @ map (\<lambda>s. (ERROR, ''Video file does not exist at path: '' @ get_scene_path s vid))
                   (filter (\<lambda>s. \<not> path_exists ?w (get_scene_path s vid)) keys)\<rparr>)"
      using Cons.prems by (intro Cons.IH) simp
    finally show ?thesis using False by (simp add: logger_def)
  qed
qed

lemma dict_set_fresh: "k \<notin> fst ` set d \<Longrightarrow> dict_set d k v = d @ [(k, v)]"
  by (induction d) auto

lemma foldl_dict_set_fresh:
  assumes "distinct (map fst d @ map f ns)"
  shows "foldl (\<lambda>d (i, t). dict_set d (f i) t) d (zip ns ts) = d @ zip (map f ns) ts"
  using assms
proof (induction ns arbitrary: d ts)
  case Nil
  then show ?case by simp
next
  case (Cons n ns)
  show ?case
  proof (cases ts)
    case Nil
    then show ?thesis by simp
  next
    case (Cons t ts')
    have fresh: "f n \<notin> fst ` set d" using Cons.prems by auto
    have dist: "distinct (map fst (d @ [(f n, t)]) @ map f ns)" using Cons.prems by auto
    show ?thesis
      using Cons.IH [OF dist, of ts'] fresh Cons by (simp add: dict_set_fresh)
  qed
qed

lemma init_scene_transcriptions:
  assumes "distinct (map (uuid4 e) [0..<length ts])"
  shows "scene_transcriptions (init e ts) = zip (map (uuid4 e) [0..<length ts]) ts"
  using foldl_dict_set_fresh [of "[]" "uuid4 e" "[0..<length ts]" ts] assms
  by (simp add: init_def)

lemma init_keys:
  assumes "distinct (map (uuid4 e) [0..<length ts])"
  shows "dict_keys (scene_transcriptions (init e ts)) = map (uuid4 e) [0..<length ts]"
  by (simp add: init_scene_transcriptions [OF assms] dict_keys_def)

lemma init_get:
  assumes "distinct (map (uuid4 e) [0..<length ts])" and "i < length ts"
  shows "dict_get (scene_transcriptions (init e ts)) (uuid4 e i) = Inr (ts ! i)"
proof -
  let ?ks = "map (uuid4 e) [0..<length ts]"
  have "map_of (zip ?ks ts) (?ks ! i) = Some (ts ! i)"
    using assms by (intro map_of_zip_nth) simp_all
  then show ?thesis
    using assms by (simp add: init_scene_transcriptions [OF assms(1)] dict_get_def)
qed

lemma collect_clips_loadable:
  assumes "list_all (\<lambda>s. loadable w (get_scene_path s vid)) keys"
  shows "collect_clips vid keys ([], [], w) =
     Inr (filter (\<lambda>s. path_exists w (get_scene_path s vid)) keys,
          map (\<lambda>s. VideoFileClip (get_scene_path s vid) (projr (load_video w (get_scene_path s vid))))
              (filter (\<lambda>s. path_exists w (get_scene_path s vid)) keys),
          w\<lparr>logged := logged w @ map (\<lambda>s. (ERROR, ''Video file does not exist at path: '' @ get_scene_path s vid))
                   (filter (\<lambda>s. \<not> path_exists w (get_scene_path s vid)) keys)\<rparr>)"
proof -
  have "\<forall>s \<in> set keys. path_exists w (get_scene_path s vid) \<longrightarrow>
          (\<exists>d. load_video w (get_scene_path s vid) = Inr d)"
  proof (intro ballI impI)
    fix s assume "s \<in> set keys" and ex: "path_exists w (get_scene_path s vid)"
    with assms have "\<not> isl (load_video w (get_scene_path s vid))"
      by (auto simp add: list_all_iff loadable_def)
    then show "\<exists>d. load_video w (get_scene_path s vid) = Inr d"
      by (cases "load_video w (get_scene_path s vid)") simp_all
  qed
  from collect_clips_eq [OF this, of "[]" "[]"] show ?thesis by simp
qed

lemma combine_video_scenes_eq:
  fixes e :: env and sg :: scene_generator and w :: world
  assumes "list_all (\<lambda>s. loadable w (get_scene_path s (video_id sg))) (dict_keys (scene_transcriptions sg))"
  defines "present \<equiv> filter (\<lambda>s. path_exists w (get_scene_path s (video_id sg))) (dict_keys (scene_transcriptions sg))"
  defines "w1 \<equiv> w\<lparr>logged := logged w @ map (\<lambda>s. (ERROR, ''Video file does not exist at path: '' @ get_scene_path s (video_id sg)))
                   (filter (\<lambda>s. \<not> path_exists w (get_scene_path s (video_id sg))) (dict_keys (scene_transcriptions sg)))\<rparr>"
  defines "r \<equiv> combine_video_scenes e sg w"
  shows "a_scene_ids r = present"
    and "a_video_clips r = map (\<lambda>s. VideoFileClip (get_scene_path s (video_id sg))
                                 (projr (load_video w (get_scene_path s (video_id sg))))) present"
    and "present = [] \<Longrightarrow> a_result r = Inr None"
    and "present = [] \<Longrightarrow> a_world r = logger ERROR ''No scenes were successfully generated.'' w1"
    and "present \<noteq> [] \<Longrightarrow> write_videofile_error e (final_video_path sg) = None \<Longrightarrow>
           a_result r = Inr (Some (final_video_path sg))"
    and "present \<noteq> [] \<Longrightarrow> write_videofile_error e (final_video_path sg) = None \<Longrightarrow>
           a_world r = w1\<lparr>files := (files w1)(final_video_path sg \<mapsto> Written (Concatenate (a_video_clips r)))\<rparr>"
    and "present \<noteq> [] \<Longrightarrow> write_videofile_error e (final_video_path sg) = Some x \<Longrightarrow>
           a_result r = Inl x \<and> a_world r = w1"
  using collect_clips_loadable [OF assms(1)]
  by (simp_all add: r_def present_def w1_def combine_video_scenes_def final_video_path_def Let_def
        split: option.split)

text \<open>
  Claim C5. The clips that \<^verbatim>\<open>combine_video_scenes\<close> concatenates are those of the
  scenes whose clip file exists, in the order in which the transcriptions were given to
  the constructor: the \<open>i\<close>-th identifier drawn belongs to the \<open>i\<close>-th transcription,
  and the scenes are taken by ascending \<open>i\<close>, whatever state of the file system the
  tasks left behind. The identifiers drawn are taken to be distinct, and the clip files
  that exist to be videos.
\<close>

theorem assembly_follows_input_order:
  assumes "distinct (map (uuid4 e) [0..<length ts])"
    and "list_all (\<lambda>i. loadable w (get_scene_path (uuid4 e i) (uuid4 e (length ts)))) [0..<length ts]"
  shows "a_scene_ids (combine_video_scenes e (init e ts) w) =
           map (uuid4 e)
             (filter (\<lambda>i. path_exists w (get_scene_path (uuid4 e i) (video_id (init e ts))))
                [0..<length ts]) \<and>
         a_video_clips (combine_video_scenes e (init e ts) w) =
           map (\<lambda>i. VideoFileClip (get_scene_path (uuid4 e i) (video_id (init e ts)))
                      (projr (load_video w (get_scene_path (uuid4 e i) (video_id (init e ts))))))
             (filter (\<lambda>i. path_exists w (get_scene_path (uuid4 e i) (video_id (init e ts))))
                [0..<length ts]) \<and>
         (\<forall>i<length ts. dict_get (scene_transcriptions (init e ts)) (uuid4 e i) = Inr (ts ! i)) \<and>
         (a_video_clips (combine_video_scenes e (init e ts) w) \<noteq> [] \<and>
          write_videofile_error e (final_video_path (init e ts)) = None \<longrightarrow>
            a_result (combine_video_scenes e (init e ts) w) = Inr (Some (final_video_path (init e ts))) \<and>
            files (a_world (combine_video_scenes e (init e ts) w)) (final_video_path (init e ts)) =
              Some (Written (Concatenate (a_video_clips (combine_video_scenes e (init e ts) w)))))"
proof -
  let ?sg = "init e ts"
  let ?r = "combine_video_scenes e ?sg w"
  let ?ex = "\<lambda>s. path_exists w (get_scene_path s (video_id ?sg))"
  have vid: "video_id ?sg = uuid4 e (length ts)" by (simp add: init_def)
  have keys: "dict_keys (scene_transcriptions ?sg) = map (uuid4 e) [0..<length ts]"
    by (rule init_keys [OF assms(1)])
  have ld: "list_all (\<lambda>s. loadable w (get_scene_path s (video_id ?sg)))
              (dict_keys (scene_transcriptions ?sg))"
    using assms(2) by (simp add: keys vid list_all_iff)
  note eq = combine_video_scenes_eq [OF ld, of e]
  have present: "filter ?ex (dict_keys (scene_transcriptions ?sg)) =
      map (uuid4 e) (filter (\<lambda>i. ?ex (uuid4 e i)) [0..<length ts])"
    by (simp add: keys filter_map comp_def)
  have ids: "a_scene_ids ?r = map (uuid4 e) (filter (\<lambda>i. ?ex (uuid4 e i)) [0..<length ts])"
    using eq(1) present by simp
  have clips: "a_video_clips ?r =
      map (\<lambda>i. VideoFileClip (get_scene_path (uuid4 e i) (video_id ?sg))
                      (projr (load_video w (get_scene_path (uuid4 e i) (video_id ?sg)))))
        (filter (\<lambda>i. ?ex (uuid4 e i)) [0..<length ts])"
    using eq(2) present by (simp add: comp_def)
  have texts: "\<forall>i<length ts. dict_get (scene_transcriptions ?sg) (uuid4 e i) = Inr (ts ! i)"
    using init_get [OF assms(1)] by blast
  have written: "a_result ?r = Inr (Some (final_video_path ?sg)) \<and>
      files (a_world ?r) (final_video_path ?sg) = Some (Written (Concatenate (a_video_clips ?r)))"
    if "a_video_clips ?r \<noteq> []" and ok: "write_videofile_error e (final_video_path ?sg) = None"
  proof -
    from that(1) eq(2) have ne: "filter ?ex (dict_keys (scene_transcriptions ?sg)) \<noteq> []"
      by auto
    from eq(5) [OF ne ok] eq(6) [OF ne ok] show ?thesis by simp
  qed
  from ids clips texts written show ?thesis by blast
qed

theorem assembly_follows_input_order_witness:
  "distinct (map (uuid4 (example_env [] 0 True True)) [0..<length [''a'', ''b'', ''c'']]) \<and>
   list_all (\<lambda>i. loadable partial_world
        (get_scene_path (uuid4 (example_env [] 0 True True) i)
           (uuid4 (example_env [] 0 True True) (length [''a'', ''b'', ''c'']))))
     [0..<length [''a'', ''b'', ''c'']] \<and>
   a_scene_ids (combine_video_scenes (example_env [] 0 True True)
       (init (example_env [] 0 True True) [''a'', ''b'', ''c'']) partial_world)
     = [''scene0'', ''scene2''] \<and>
   dict_get (scene_transcriptions (init (example_env [] 0 True True) [''a'', ''b'', ''c'']))
       ''scene0'' = Inr ''a'' \<and>
   dict_get (scene_transcriptions (init (example_env [] 0 True True) [''a'', ''b'', ''c'']))
       ''scene2'' = Inr ''c''"
proof -
  let ?e = "example_env [] 0 True True"
  let ?ts = "[''a'', ''b'', ''c'']"
  have h1: "distinct (map (uuid4 ?e) [0..<length ?ts])"
    by code_simp
  have h2: "list_all (\<lambda>i. loadable partial_world
        (get_scene_path (uuid4 ?e i) (uuid4 ?e (length ?ts)))) [0..<length ?ts]"
    by code_simp
  have v: "map (uuid4 ?e)
             (filter (\<lambda>i. path_exists partial_world
                 (get_scene_path (uuid4 ?e i) (video_id (init ?e ?ts)))) [0..<length ?ts])
           = [''scene0'', ''scene2'']"
    by code_simp
  have u: "uuid4 ?e 0 = ''scene0''" "uuid4 ?e 2 = ''scene2''"
    by code_simp+
  have "dict_get (scene_transcriptions (init ?e ?ts)) (uuid4 ?e 0) = Inr (?ts ! 0)"
       "dict_get (scene_transcriptions (init ?e ?ts)) (uuid4 ?e 2) = Inr (?ts ! 2)"
    using assembly_follows_input_order [OF h1 h2] by simp_all
  then show ?thesis
    using assembly_follows_input_order [OF h1 h2] h1 h2 v u by simp
qed

text \<open>
  Claim C6. When no scene has a clip file at assembly time, \<^verbatim>\<open>combine_video_scenes\<close>
  returns \<^verbatim>\<open>None\<close>, logs an error and leaves the files as they are: no final video
  is written.
\<close>

theorem no_clips_no_final_video:
  assumes "list_all (\<lambda>s. \<not> path_exists w (get_scene_path s (video_id sg)))
             (dict_keys (scene_transcriptions sg))"
  shows "a_result (combine_video_scenes e sg w) = Inr None \<and>
         a_video_clips (combine_video_scenes e sg w) = [] \<and>
         files (a_world (combine_video_scenes e sg w)) = files w \<and>
         dirs (a_world (combine_video_scenes e sg w)) = dirs w \<and>
         (ERROR, ''No scenes were successfully generated.'')
           \<in> set (logged (a_world (combine_video_scenes e sg w)))"
proof -
  let ?keys = "dict_keys (scene_transcriptions sg)"
  have ld: "list_all (\<lambda>s. loadable w (get_scene_path s (video_id sg))) ?keys"
    using assms by (simp add: list_all_iff loadable_def)
  have none: "filter (\<lambda>s. path_exists w (get_scene_path s (video_id sg))) ?keys = []"
    using assms by (simp add: list_all_iff filter_empty_conv)
  show ?thesis
    using combine_video_scenes_eq(2) [OF ld, of e] combine_video_scenes_eq(3) [OF ld none, of e]
      combine_video_scenes_eq(4) [OF ld none, of e] none
    by (simp add: logger_def)
qed

theorem no_clips_no_final_video_witness:
  "list_all (\<lambda>s. \<not> path_exists empty_world (get_scene_path s (video_id example_sg)))
     (dict_keys (scene_transcriptions example_sg)) \<and>
   a_result (combine_video_scenes (example_env [] 0 True True) example_sg empty_world) = Inr None \<and>
   files (a_world (combine_video_scenes (example_env [] 0 True True) example_sg empty_world))
     = files empty_world"
proof -
  have h: "list_all (\<lambda>s. \<not> path_exists empty_world (get_scene_path s (video_id example_sg)))
     (dict_keys (scene_transcriptions example_sg))"
    by code_simp
  show ?thesis
    using no_clips_no_final_video [OF h, of "example_env [] 0 True True"] h by simp
qed

text \<open>
  Claim C7. A scene whose clip file is missing at assembly time gets an error line in the
  log and is left out of the concatenation; the scenes whose files exist are still
  assembled, in their order, and when there is at least one and the write succeeds the
  final video is written and its path returned.
\<close>

theorem missing_scene_is_omitted:
  assumes "list_all (\<lambda>s. loadable w (get_scene_path s (video_id sg)))
             (dict_keys (scene_transcriptions sg))"
    and "scene_id \<in> set (dict_keys (scene_transcriptions sg))"
    and "\<not> path_exists w (get_scene_path scene_id (video_id sg))"
  shows "(ERROR, ''Video file does not exist at path: '' @ get_scene_path scene_id (video_id sg))
           \<in> set (logged (a_world (combine_video_scenes e sg w))) \<and>
         scene_id \<notin> set (a_scene_ids (combine_video_scenes e sg w)) \<and>
         a_scene_ids (combine_video_scenes e sg w) =
           filter (\<lambda>s. path_exists w (get_scene_path s (video_id sg)))
             (dict_keys (scene_transcriptions sg)) \<and>
         (a_scene_ids (combine_video_scenes e sg w) \<noteq> [] \<and>
          write_videofile_error e (final_video_path sg) = None \<longrightarrow>
            a_result (combine_video_scenes e sg w) = Inr (Some (final_video_path sg)) \<and>
            files (a_world (combine_video_scenes e sg w)) (final_video_path sg) =
              Some (Written (Concatenate
                (map (\<lambda>s. VideoFileClip (get_scene_path s (video_id sg))
                            (projr (load_video w (get_scene_path s (video_id sg)))))
                   (a_scene_ids (combine_video_scenes e sg w))))))"
proof -
  let ?keys = "dict_keys (scene_transcriptions sg)"
  let ?r = "combine_video_scenes e sg w"
  let ?present = "filter (\<lambda>s. path_exists w (get_scene_path s (video_id sg))) ?keys"
  let ?line = "(ERROR, ''Video file does not exist at path: '' @ get_scene_path scene_id (video_id sg))"
  let ?w1 = "w\<lparr>logged := logged w @ map (\<lambda>s. (ERROR, ''Video file does not exist at path: '' @ get_scene_path s (video_id sg)))
                   (filter (\<lambda>s. \<not> path_exists w (get_scene_path s (video_id sg))) ?keys)\<rparr>"
  note eq = combine_video_scenes_eq [OF assms(1), of e]
  have ids: "a_scene_ids ?r = ?present" by (rule eq(1))
  have omitted: "scene_id \<notin> set (a_scene_ids ?r)" using assms(3) by (simp add: ids)
  have in_w1: "?line \<in> set (logged ?w1)" using assms(2,3) by auto
  have line: "?line \<in> set (logged (a_world ?r))"
  proof (cases "?present = []")
    case True
    from eq(4) [OF True] in_w1 show ?thesis by (simp add: logger_def)
  next
    case False
    show ?thesis
    proof (cases "write_videofile_error e (final_video_path sg)")
      case None
      from eq(6) [OF False None] in_w1 show ?thesis by simp
    next
      case (Some x)
      from eq(7) [OF False Some] in_w1 show ?thesis by simp
    qed
  qed
  have written: "a_result ?r = Inr (Some (final_video_path sg)) \<and>
      files (a_world ?r) (final_video_path sg) =
        Some (Written (Concatenate
          (map (\<lambda>s. VideoFileClip (get_scene_path s (video_id sg))
                            (projr (load_video w (get_scene_path s (video_id sg)))))
             (a_scene_ids ?r))))"
    if "a_scene_ids ?r \<noteq> []" and ok: "write_videofile_error e (final_video_path sg) = None"
  proof -
    from that ids have ne: "?present \<noteq> []" by simp
    from eq(5) [OF ne ok] eq(6) [OF ne ok] eq(2) ids show ?thesis by simp
  qed
  from line omitted ids written show ?thesis by blast
qed

theorem missing_scene_is_omitted_witness:
  "list_all (\<lambda>s. loadable partial_world
        (get_scene_path s (video_id (init (example_env [] 0 True True) [''a'', ''b'', ''c'']))))
     (dict_keys (scene_transcriptions (init (example_env [] 0 True True) [''a'', ''b'', ''c'']))) \<and>
   ''scene1'' \<in> set (dict_keys (scene_transcriptions
        (init (example_env [] 0 True True) [''a'', ''b'', ''c'']))) \<and>
   \<not> path_exists partial_world
        (get_scene_path ''scene1'' (video_id (init (example_env [] 0 True True) [''a'', ''b'', ''c'']))) \<and>
   ''scene1'' \<notin> set (a_scene_ids (combine_video_scenes (example_env [] 0 True True)
        (init (example_env [] 0 True True) [''a'', ''b'', ''c'']) partial_world)) \<and>
   a_scene_ids (combine_video_scenes (example_env [] 0 True True)
        (init (example_env [] 0 True True) [''a'', ''b'', ''c'']) partial_world) \<noteq> [] \<and>
   write_videofile_error (example_env [] 0 True True)
        (final_video_path (init (example_env [] 0 True True) [''a'', ''b'', ''c''])) = None \<and>
   a_result (combine_video_scenes (example_env [] 0 True True)
        (init (example_env [] 0 True True) [''a'', ''b'', ''c'']) partial_world)
     = Inr (Some (final_video_path (init (example_env [] 0 True True) [''a'', ''b'', ''c''])))"
proof -
  let ?e = "example_env [] 0 True True"
  let ?sg = "init ?e [''a'', ''b'', ''c'']"
  have h1: "list_all (\<lambda>s. loadable partial_world (get_scene_path s (video_id ?sg)))
              (dict_keys (scene_transcriptions ?sg))"
    by code_simp
  have h2: "''scene1'' \<in> set (dict_keys (scene_transcriptions ?sg))"
    by code_simp
  have h3: "\<not> path_exists partial_world (get_scene_path ''scene1'' (video_id ?sg))"
    by code_simp
  have h4: "filter (\<lambda>s. path_exists partial_world (get_scene_path s (video_id ?sg)))
              (dict_keys (scene_transcriptions ?sg)) \<noteq> []"
    by code_simp
  have h5: "write_videofile_error ?e (final_video_path ?sg) = None"
    by code_simp
  show ?thesis
    using missing_scene_is_omitted [OF h1 h2 h3, of ?e] h1 h2 h3 h4 h5 by simp
qed


section \<open>Orchestration\<close>

lemma gather_raises: "\<exists>r \<in> set rs. isl r \<Longrightarrow> isl (gather rs)"
proof (induction rs)
  case Nil
  then show ?case by simp
next
  case (Cons r rs)
  show ?case
  proof (cases r)
    case (Inl x)
    then show ?thesis by simp
  next
    case (Inr v)
    with Cons.prems have "\<exists>r \<in> set rs. isl r" by auto
    then have "isl (gather rs)" by (rule Cons.IH)
    with Inr show ?thesis by (cases "gather rs") simp_all
  qed
qed

lemma run_tasks_speech_raises:
  assumes "dict_get (scene_transcriptions sg) scene_id = Inr text"
    and "synthesize e text VOICE_ID ''wav'' = Inl x"
    and "scene_id \<in> set ids"
  shows "\<exists>m. [m, Inl x] \<in> set (fst (run_tasks e sg ids w))"
  using assms(3)
proof (induction ids arbitrary: w)
  case Nil
  then show ?case by simp
next
  case (Cons k ids)
  obtain m st where gm: "generate_manim e sg k w = (m, st)"
    by (cases "generate_manim e sg k w")
  obtain s w1 where gs: "generate_speech e sg k (video_id sg) (gm_world st) = (s, w1)"
    by (cases "generate_speech e sg k (video_id sg) (gm_world st)")
  obtain rs w2 where rt: "run_tasks e sg ids w1 = (rs, w2)"
    by (cases "run_tasks e sg ids w1")
  have unfolded: "fst (run_tasks e sg (k # ids) w) = [m, s] # rs"
    using gm gs rt by simp
  show ?case
  proof (cases "k = scene_id")
    case True
    with gs assms(1,2) have "s = Inl x" by (simp add: generate_speech_def)
    with unfolded show ?thesis by auto
  next
    case False
    with Cons.prems have "scene_id \<in> set ids" by simp
    then obtain m' where "[m', Inl x] \<in> set (fst (run_tasks e sg ids w1))"
      using Cons.IH by blast
    with rt unfolded show ?thesis by auto
  qed
qed

text \<open>
  Claim C3 says that a failure inside one scene, a failure of the speech service in
  particular, never ends the run, and that the caller always gets the video id. In the
  code the exception of \<^verbatim>\<open>generate_speech\<close> passes through both
  \<^verbatim>\<open>gather\<close>s: whenever the speech service raises for one scene of the
  dictionary, \<^verbatim>\<open>generate_all_scenes\<close> ends with an exception and returns no id.
\<close>

theorem speech_failure_aborts_run:
  assumes "scene_id \<in> set (dict_keys (scene_transcriptions sg))"
    and "dict_get (scene_transcriptions sg) scene_id = Inr text"
    and "synthesize e text VOICE_ID ''wav'' = Inl x"
  shows "\<exists>y. generate_all_scenes e sg w = Inl y"
proof -
  obtain tasks w1 where rt: "run_tasks e sg (dict_keys (scene_transcriptions sg)) w = (tasks, w1)"
    by (cases "run_tasks e sg (dict_keys (scene_transcriptions sg)) w")
  from run_tasks_speech_raises [OF assms(2,3,1), of w] rt
  obtain m where "[m, Inl x] \<in> set tasks" by auto
  moreover have "isl (gather [m, Inl x])" by (rule gather_raises) simp
  ultimately have "\<exists>r \<in> set (map gather tasks). isl r" by auto
  then have "isl (gather (map gather tasks))" by (rule gather_raises)
  then obtain y where "gather (map gather tasks) = Inl y"
    by (cases "gather (map gather tasks)") simp_all
  with rt show ?thesis by (simp add: generate_all_scenes_def)
qed

theorem speech_failure_aborts_run_witness:
  "''scene1'' \<in> set (dict_keys (scene_transcriptions (init (speech_fails_for ''b'') [''a'', ''b'']))) \<and>
   dict_get (scene_transcriptions (init (speech_fails_for ''b'') [''a'', ''b''])) ''scene1'' = Inr ''b'' \<and>
   synthesize (speech_fails_for ''b'') ''b'' VOICE_ID ''wav''
     = Inl (ServiceError ''speech service unavailable'') \<and>
   generate_all_scenes (speech_fails_for ''b'') (init (speech_fails_for ''b'') [''a'', ''b''])
     empty_world = Inl (ServiceError ''speech service unavailable'') \<and>
   map_sum id fst (generate_all_scenes (speech_fails_for ''c'')
     (init (speech_fails_for ''c'') [''a'', ''b'']) empty_world) = Inr ''scene2''"
proof -
  let ?e = "speech_fails_for ''b''"
  let ?run = "generate_all_scenes ?e (init ?e [''a'', ''b'']) empty_world"
  have h1: "''scene1'' \<in> set (dict_keys (scene_transcriptions (init ?e [''a'', ''b''])))"
    by code_simp
  have h2: "dict_get (scene_transcriptions (init ?e [''a'', ''b''])) ''scene1'' = Inr ''b''"
    by code_simp
  have h3: "synthesize ?e ''b'' VOICE_ID ''wav'' = Inl (ServiceError ''speech service unavailable'')"
    by code_simp
  from speech_failure_aborts_run [OF h1 h2 h3, of empty_world]
  obtain y where y: "?run = Inl y" by blast
  have "projl ?run = ServiceError ''speech service unavailable''"
    by code_simp
  with y have raised: "?run = Inl (ServiceError ''speech service unavailable'')" by simp
  have ok: "map_sum id fst (generate_all_scenes (speech_fails_for ''c'')
      (init (speech_fails_for ''c'') [''a'', ''b'']) empty_world) = Inr ''scene2''"
    by code_simp
  from h1 h2 h3 raised ok show ?thesis by simp
qed

end
